theory Spec2Isabelle
  imports Main "HOL-Library.AList"
begin

section \<open>Data model (shared/schema.ts)\<close>

text \<open>
  Dates are the milliseconds of \<^verbatim>\<open>Date.getTime()\<close>; every \<^verbatim>\<open>new Date()\<close> and
  every server timestamp of one call is the argument \<open>now\<close> of the operation.
  The zod enums (roles, statuses, departments, ...) are strings, as they are at run
  time; an optional field is an \<open>option\<close>; the numbers (counters, salaries, page and
  limit) are integers.  Fresh identifiers
  (\<^verbatim>\<open>randomUUID()\<close>, Firestore's automatic document ids) are arguments of the
  operation that draws them.
\<close>

type_synonym date = int

record Location =
  city :: string
  state :: string
  country :: string

text \<open>\<^verbatim>\<open>InsertUserSchema = UserSchema.omit({id, createdAt, updatedAt})\<close>\<close>

record InsertUser =
  user_displayName :: string
  user_email :: string
  user_role :: string
  user_emailVerified :: bool

record User = InsertUser +
  user_id :: string
  user_createdAt :: date
  user_updatedAt :: date

text \<open>\<^verbatim>\<open>InsertCompanySchema = CompanySchema.omit({id, status, createdAt, updatedAt})\<close>\<close>

record InsertCompany =
  company_name :: string
  company_website :: "string option"
  company_instituteType :: string
  company_hrEmail :: string
  company_logoPath :: "string option"
  company_address :: string
  company_phone :: "string option"
  company_proofDocs :: "string list"
  company_ownerUid :: string

record Company = InsertCompany +
  company_id :: string
  company_status :: string
  company_createdAt :: date
  company_updatedAt :: date

text \<open>
  \<^verbatim>\<open>InsertJobSchema = JobSchema.omit({id, status, approvedBy, approvedAt, viewCount,
  applicationCount, createdAt, updatedAt})\<close>: the user-supplied fields of a job.
\<close>

record InsertJob =
  job_title :: string
  job_department :: string
  job_level :: string
  job_instituteType :: string
  job_employmentType :: string
  job_location :: Location
  job_minSalary :: "int option"
  job_maxSalary :: "int option"
  job_currency :: string
  job_qualifications :: "string list"
  job_skills :: "string list"
  job_responsibilities :: "string list"
  job_description :: string
  job_requirements :: "string option"
  job_lastDate :: date
  job_applyMode :: string
  job_applyUrl :: "string option"
  job_companyId :: string
  job_posterUid :: string

record Job = InsertJob +
  job_id :: string
  job_status :: string
  job_approvedBy :: "string option"
  job_approvedAt :: "date option"
  job_viewCount :: int
  job_applicationCount :: int
  job_createdAt :: date
  job_updatedAt :: date

text \<open>\<^verbatim>\<open>InsertApplicationSchema = ApplicationSchema.omit({id, status, notes, createdAt, updatedAt})\<close>\<close>

record InsertApplication =
  app_jobId :: string
  app_applicantUid :: string
  app_resumePath :: string
  app_coverLetter :: "string option"
  app_dedupeKey :: string

record Application = InsertApplication +
  app_id :: string
  app_status :: string
  app_notes :: "string option"
  app_createdAt :: date
  app_updatedAt :: date

record InsertAuditLog =
  log_actorUid :: string
  log_action :: string
  log_targetType :: string
  log_targetId :: string
  log_metadata :: "(string \<times> string) list"

record AuditLog = InsertAuditLog +
  log_id :: string
  log_timestamp :: date

text \<open>
  \<^verbatim>\<open>Partial<T>\<close>: an object holding some fields of \<open>T\<close>, here the list of its
  field assignments.  The spread \<^verbatim>\<open>{ ...job, ...updates }\<close> applies them to the
  stored record.
\<close>

datatype UserUpdate =
    Set_user_displayName string
  | Set_user_email string
  | Set_user_role string
  | Set_user_emailVerified bool
  | Set_user_id string
  | Set_user_createdAt date
  | Set_user_updatedAt date

fun applyUserUpdate :: "UserUpdate \<Rightarrow> User \<Rightarrow> User" where
  "applyUserUpdate (Set_user_displayName v) u = u\<lparr>user_displayName := v\<rparr>"
| "applyUserUpdate (Set_user_email v) u = u\<lparr>user_email := v\<rparr>"
| "applyUserUpdate (Set_user_role v) u = u\<lparr>user_role := v\<rparr>"
| "applyUserUpdate (Set_user_emailVerified v) u = u\<lparr>user_emailVerified := v\<rparr>"
| "applyUserUpdate (Set_user_id v) u = u\<lparr>user_id := v\<rparr>"
| "applyUserUpdate (Set_user_createdAt v) u = u\<lparr>user_createdAt := v\<rparr>"
| "applyUserUpdate (Set_user_updatedAt v) u = u\<lparr>user_updatedAt := v\<rparr>"

datatype CompanyUpdate =
    Set_company_name string
  | Set_company_website "string option"
  | Set_company_instituteType string
  | Set_company_hrEmail string
  | Set_company_logoPath "string option"
  | Set_company_address string
  | Set_company_phone "string option"
  | Set_company_proofDocs "string list"
  | Set_company_ownerUid string
  | Set_company_id string
  | Set_company_status string
  | Set_company_createdAt date
  | Set_company_updatedAt date

fun applyCompanyUpdate :: "CompanyUpdate \<Rightarrow> Company \<Rightarrow> Company" where
  "applyCompanyUpdate (Set_company_name v) c = c\<lparr>company_name := v\<rparr>"
| "applyCompanyUpdate (Set_company_website v) c = c\<lparr>company_website := v\<rparr>"
| "applyCompanyUpdate (Set_company_instituteType v) c = c\<lparr>company_instituteType := v\<rparr>"
| "applyCompanyUpdate (Set_company_hrEmail v) c = c\<lparr>company_hrEmail := v\<rparr>"
| "applyCompanyUpdate (Set_company_logoPath v) c = c\<lparr>company_logoPath := v\<rparr>"
| "applyCompanyUpdate (Set_company_address v) c = c\<lparr>company_address := v\<rparr>"
| "applyCompanyUpdate (Set_company_phone v) c = c\<lparr>company_phone := v\<rparr>"
| "applyCompanyUpdate (Set_company_proofDocs v) c = c\<lparr>company_proofDocs := v\<rparr>"
| "applyCompanyUpdate (Set_company_ownerUid v) c = c\<lparr>company_ownerUid := v\<rparr>"
| "applyCompanyUpdate (Set_company_id v) c = c\<lparr>company_id := v\<rparr>"
| "applyCompanyUpdate (Set_company_status v) c = c\<lparr>company_status := v\<rparr>"
| "applyCompanyUpdate (Set_company_createdAt v) c = c\<lparr>company_createdAt := v\<rparr>"
| "applyCompanyUpdate (Set_company_updatedAt v) c = c\<lparr>company_updatedAt := v\<rparr>"

datatype JobUpdate =
    Set_job_title string
  | Set_job_department string
  | Set_job_level string
  | Set_job_instituteType string
  | Set_job_employmentType string
  | Set_job_location Location
  | Set_job_minSalary "int option"
  | Set_job_maxSalary "int option"
  | Set_job_currency string
  | Set_job_qualifications "string list"
  | Set_job_skills "string list"
  | Set_job_responsibilities "string list"
  | Set_job_description string
  | Set_job_requirements "string option"
  | Set_job_lastDate date
  | Set_job_applyMode string
  | Set_job_applyUrl "string option"
  | Set_job_companyId string
  | Set_job_posterUid string
  | Set_job_id string
  | Set_job_status string
  | Set_job_approvedBy "string option"
  | Set_job_approvedAt "date option"
  | Set_job_viewCount int
  | Set_job_applicationCount int
  | Set_job_createdAt date
  | Set_job_updatedAt date

fun applyJobUpdate :: "JobUpdate \<Rightarrow> Job \<Rightarrow> Job" where
  "applyJobUpdate (Set_job_title v) j = j\<lparr>job_title := v\<rparr>"
| "applyJobUpdate (Set_job_department v) j = j\<lparr>job_department := v\<rparr>"
| "applyJobUpdate (Set_job_level v) j = j\<lparr>job_level := v\<rparr>"
| "applyJobUpdate (Set_job_instituteType v) j = j\<lparr>job_instituteType := v\<rparr>"
| "applyJobUpdate (Set_job_employmentType v) j = j\<lparr>job_employmentType := v\<rparr>"
| "applyJobUpdate (Set_job_location v) j = j\<lparr>job_location := v\<rparr>"
| "applyJobUpdate (Set_job_minSalary v) j = j\<lparr>job_minSalary := v\<rparr>"
| "applyJobUpdate (Set_job_maxSalary v) j = j\<lparr>job_maxSalary := v\<rparr>"
| "applyJobUpdate (Set_job_currency v) j = j\<lparr>job_currency := v\<rparr>"
| "applyJobUpdate (Set_job_qualifications v) j = j\<lparr>job_qualifications := v\<rparr>"
| "applyJobUpdate (Set_job_skills v) j = j\<lparr>job_skills := v\<rparr>"
| "applyJobUpdate (Set_job_responsibilities v) j = j\<lparr>job_responsibilities := v\<rparr>"
| "applyJobUpdate (Set_job_description v) j = j\<lparr>job_description := v\<rparr>"
| "applyJobUpdate (Set_job_requirements v) j = j\<lparr>job_requirements := v\<rparr>"
| "applyJobUpdate (Set_job_lastDate v) j = j\<lparr>job_lastDate := v\<rparr>"
| "applyJobUpdate (Set_job_applyMode v) j = j\<lparr>job_applyMode := v\<rparr>"
| "applyJobUpdate (Set_job_applyUrl v) j = j\<lparr>job_applyUrl := v\<rparr>"
| "applyJobUpdate (Set_job_companyId v) j = j\<lparr>job_companyId := v\<rparr>"
| "applyJobUpdate (Set_job_posterUid v) j = j\<lparr>job_posterUid := v\<rparr>"
| "applyJobUpdate (Set_job_id v) j = j\<lparr>job_id := v\<rparr>"
| "applyJobUpdate (Set_job_status v) j = j\<lparr>job_status := v\<rparr>"
| "applyJobUpdate (Set_job_approvedBy v) j = j\<lparr>job_approvedBy := v\<rparr>"
| "applyJobUpdate (Set_job_approvedAt v) j = j\<lparr>job_approvedAt := v\<rparr>"
| "applyJobUpdate (Set_job_viewCount v) j = j\<lparr>job_viewCount := v\<rparr>"
| "applyJobUpdate (Set_job_applicationCount v) j = j\<lparr>job_applicationCount := v\<rparr>"
| "applyJobUpdate (Set_job_createdAt v) j = j\<lparr>job_createdAt := v\<rparr>"
| "applyJobUpdate (Set_job_updatedAt v) j = j\<lparr>job_updatedAt := v\<rparr>"

section \<open>The in-memory store (server/storage.ts, class MemStorage)\<close>

text \<open>
  A JavaScript \<^verbatim>\<open>Map\<close> keeps its entries in insertion order, and \<^verbatim>\<open>set\<close> on a key
  that is present replaces the value where it stands: an association list with
  \<open>AList.update\<close>, \<open>AList.delete\<close> and \<open>map_of\<close>.  \<^verbatim>\<open>Array.from(m.values())\<close> is
  \<open>map snd\<close>.  The map \<^verbatim>\<open>reports\<close>, which none of the operations below touches, is
  left out.
\<close>

record MemStorage =
  users :: "(string \<times> User) list"
  companies :: "(string \<times> Company) list"
  jobs :: "(string \<times> Job) list"
  applications :: "(string \<times> Application) list"
  auditLogs :: "(string \<times> AuditLog) list"

definition emptyStorage :: MemStorage where
  "emptyStorage = \<lparr>users = [], companies = [], jobs = [], applications = [], auditLogs = []\<rparr>"

text \<open>
  The error taxonomy of section 7 of the specification; the codes of
  \<^verbatim>\<open>functions.https.HttpsError\<close> map to it by name
  (\<^verbatim>\<open>'failed-precondition'\<close> is \<open>PreconditionFailed\<close>).
\<close>

datatype error =
    Unauthenticated
  | EmailNotVerified
  | PermissionDenied
  | NotFound
  | AlreadyExists
  | InvalidArgument
  | PreconditionFailed
  | Internal

subsection \<open>Users, companies\<close>

definition getUser :: "string \<Rightarrow> MemStorage \<Rightarrow> User option" where
  "getUser uid s = map_of (users s) uid"

text \<open>
  The update methods return \<^verbatim>\<open>Promise<void>\<close> and contain no \<^verbatim>\<open>throw\<close>: the result is
  always \<open>Inr ()\<close>, paired with the new store.
\<close>

definition updateUser ::
  "string \<Rightarrow> UserUpdate list \<Rightarrow> date \<Rightarrow> MemStorage \<Rightarrow> (error + unit) \<times> MemStorage" where
  "updateUser uid updates now s =
     (case map_of (users s) uid of
        Some user \<Rightarrow>
          (Inr (), s\<lparr>users :=
             AList.update uid ((fold applyUserUpdate updates user)\<lparr>user_updatedAt := now\<rparr>) (users s)\<rparr>)
      | None \<Rightarrow> (Inr (), s))"

definition getCompany :: "string \<Rightarrow> MemStorage \<Rightarrow> Company option" where
  "getCompany cid s = map_of (companies s) cid"


definition updateCompany ::
  "string \<Rightarrow> CompanyUpdate list \<Rightarrow> date \<Rightarrow> MemStorage \<Rightarrow> (error + unit) \<times> MemStorage" where
  "updateCompany cid updates now s =
     (case map_of (companies s) cid of
        Some company \<Rightarrow>
          (Inr (), s\<lparr>companies :=
             AList.update cid ((fold applyCompanyUpdate updates company)\<lparr>company_updatedAt := now\<rparr>)
               (companies s)\<rparr>)
      | None \<Rightarrow> (Inr (), s))"

subsection \<open>Jobs\<close>

definition getJob :: "string \<Rightarrow> MemStorage \<Rightarrow> Job option" where
  "getJob jid s = map_of (jobs s) jid"

definition createJob :: "string \<Rightarrow> date \<Rightarrow> InsertJob \<Rightarrow> MemStorage \<Rightarrow> Job \<times> MemStorage" where
  "createJob newId now insertJob s =
     (let job = InsertJob.extend insertJob (Job.fields newId ''pending'' None None 0 0 now now)
      in (job, s\<lparr>jobs := AList.update newId job (jobs s)\<rparr>))"

definition updateJob ::
  "string \<Rightarrow> JobUpdate list \<Rightarrow> date \<Rightarrow> MemStorage \<Rightarrow> (error + unit) \<times> MemStorage" where
  "updateJob jid updates now s =
     (case map_of (jobs s) jid of
        Some job \<Rightarrow>
          (Inr (), s\<lparr>jobs :=
             AList.update jid ((fold applyJobUpdate updates job)\<lparr>job_updatedAt := now\<rparr>) (jobs s)\<rparr>)
      | None \<Rightarrow> (Inr (), s))"

text \<open>
  \<^verbatim>\<open>deleteJob\<close> removes the entry, then every application whose \<^verbatim>\<open>jobId\<close> is the
  job's, each by its own \<^verbatim>\<open>id\<close> field.
\<close>

definition deleteJob :: "string \<Rightarrow> MemStorage \<Rightarrow> (error + unit) \<times> MemStorage" where
  "deleteJob jid s =
     (let s1 = s\<lparr>jobs := AList.delete jid (jobs s)\<rparr>;
          jobApplications = filter (\<lambda>a. app_jobId a = jid) (map snd (applications s1))
      in (Inr (), s1\<lparr>applications := fold (\<lambda>a. AList.delete (app_id a)) jobApplications (applications s1)\<rparr>))"

definition deleteUser :: "string \<Rightarrow> MemStorage \<Rightarrow> (error + unit) \<times> MemStorage" where
  "deleteUser uid s =
     (let s1 = s\<lparr>users := AList.delete uid (users s)\<rparr>;
          userCompanies = filter (\<lambda>c. company_ownerUid c = uid) (map snd (companies s1));
          s2 = s1\<lparr>companies := fold (\<lambda>c. AList.delete (company_id c)) userCompanies (companies s1)\<rparr>;
          userJobs = filter (\<lambda>j. job_posterUid j = uid) (map snd (jobs s2));
          s3 = s2\<lparr>jobs := fold (\<lambda>j. AList.delete (job_id j)) userJobs (jobs s2)\<rparr>;
          userApplications = filter (\<lambda>a. app_applicantUid a = uid) (map snd (applications s3))
      in (Inr (), s3\<lparr>applications := fold (\<lambda>a. AList.delete (app_id a)) userApplications (applications s3)\<rparr>))"

subsection \<open>Applications and audit log\<close>

definition getApplicationByDedupeKey :: "string \<Rightarrow> MemStorage \<Rightarrow> Application option" where
  "getApplicationByDedupeKey dedupeKey s =
     find (\<lambda>app. app_dedupeKey app = dedupeKey) (map snd (applications s))"

definition createApplication ::
  "string \<Rightarrow> date \<Rightarrow> InsertApplication \<Rightarrow> MemStorage \<Rightarrow> Application \<times> MemStorage" where
  "createApplication newId now insertApplication s =
     (let application =
            InsertApplication.extend insertApplication (Application.fields newId ''submitted'' None now now)
      in (application, s\<lparr>applications := AList.update newId application (applications s)\<rparr>))"



subsection \<open>Search\<close>

text \<open>
  JavaScript truthiness of an optional string: \<^verbatim>\<open>undefined\<close> and \<^verbatim>\<open>''\<close> are falsy.
  \<open>whenTruthy v f x\<close> is \<^verbatim>\<open>if (v) { x = f(v, x) }\<close>.
\<close>

definition whenTruthy :: "string option \<Rightarrow> (string \<Rightarrow> 'a \<Rightarrow> 'a) \<Rightarrow> 'a \<Rightarrow> 'a" where
  "whenTruthy v f x = (case v of None \<Rightarrow> x | Some str \<Rightarrow> if str = [] then x else f str x)"

text \<open>\<^verbatim>\<open>toLowerCase\<close> on the ASCII letters; \<^verbatim>\<open>s.includes(sub)\<close> is the substring test.\<close>

definition toLowerCase_char :: "char \<Rightarrow> char" where
  "toLowerCase_char c =
     (let n = (of_char c :: nat) in if 65 \<le> n \<and> n \<le> 90 then char_of (n + 32) else c)"

definition toLowerCase :: "string \<Rightarrow> string" where
  "toLowerCase str = map toLowerCase_char str"

fun startsWith :: "string \<Rightarrow> string \<Rightarrow> bool" where
  "startsWith str [] = True"
| "startsWith [] (c # cs) = False"
| "startsWith (x # xs) (c # cs) = (x = c \<and> startsWith xs cs)"

fun str_includes :: "string \<Rightarrow> string \<Rightarrow> bool" where
  "str_includes [] sub = (sub = [])"
| "str_includes (x # xs) sub = (startsWith (x # xs) sub \<or> str_includes xs sub)"

text \<open>
  \<^verbatim>\<open>Array.prototype.slice(start, end)\<close>: a negative index counts from the end of the
  array, and both indices are clamped to the array.
\<close>

definition js_slice :: "int \<Rightarrow> int \<Rightarrow> 'a list \<Rightarrow> 'a list" where
  "js_slice start fin xs =
     (let n = int (length xs);
          k = (if start < 0 then max (n + start) 0 else min start n);
          e = (if fin < 0 then max (n + fin) 0 else min fin n)
      in take (nat (e - k)) (drop (nat k) xs))"

text \<open>\<^verbatim>\<open>Partial<JobSearchFilters>\<close>: every field may be absent.\<close>

record PartialJobSearchFilters =
  pf_query :: "string option"
  pf_department :: "string option"
  pf_instituteType :: "string option"
  pf_level :: "string option"
  pf_location :: "string option"
  pf_employmentType :: "string option"
  pf_minSalary :: "int option"
  pf_maxSalary :: "int option"
  pf_postedWithin :: "string option"
  pf_sortBy :: "string option"
  pf_page :: "int option"
  pf_limit :: "int option"

record 'a PaginatedResponse =
  items :: "'a list"
  total :: int
  page :: int
  limit :: int
  hasMore :: bool

definition matchesQuery :: "string \<Rightarrow> Job \<Rightarrow> bool" where
  "matchesQuery q job =
     (str_includes (toLowerCase (job_title job)) q
      \<or> str_includes (toLowerCase (job_description job)) q
      \<or> list_ex (\<lambda>x. str_includes (toLowerCase x) q) (job_qualifications job)
      \<or> list_ex (\<lambda>x. str_includes (toLowerCase x) q) (job_skills job))"

definition daysAgoOf :: "string \<Rightarrow> int" where
  "daysAgoOf postedWithin =
     (if postedWithin = ''24h'' then 1
      else if postedWithin = ''7d'' then 7
      else if postedWithin = ''30d'' then 30
      else 0)"

definition orZero :: "int option \<Rightarrow> int" where
  "orZero v = (case v of None \<Rightarrow> 0 | Some n \<Rightarrow> n)"

text \<open>
  \<^verbatim>\<open>Array.prototype.sort\<close> is stable, and each comparator is the difference of a
  numeric key: the stable sort by that key (\<open>sort_key\<close>), negated for a descending
  order.
\<close>

definition sortJobs :: "string option \<Rightarrow> Job list \<Rightarrow> Job list" where
  "sortJobs sortBy allJobs =
     (if sortBy = Some ''deadline'' then sort_key job_lastDate allJobs
      else if sortBy = Some ''salary_high'' then sort_key (\<lambda>j. - orZero (job_maxSalary j)) allJobs
      else if sortBy = Some ''salary_low'' then sort_key (\<lambda>j. orZero (job_minSalary j)) allJobs
      else sort_key (\<lambda>j. - job_createdAt j) allJobs)"

text \<open>The array \<^verbatim>\<open>allJobs\<close> of \<^verbatim>\<open>searchJobs\<close> after the filters, before the sort.\<close>

definition searchJobs_filtered :: "PartialJobSearchFilters \<Rightarrow> date \<Rightarrow> MemStorage \<Rightarrow> Job list" where
  "searchJobs_filtered filters now s =
     (let allJobs0 = filter (\<lambda>job. job_status job = ''approved'') (map snd (jobs s));
          allJobs1 = whenTruthy (pf_department filters)
                       (\<lambda>d. filter (\<lambda>job. job_department job = d)) allJobs0;
          allJobs2 = whenTruthy (pf_instituteType filters)
                       (\<lambda>t. filter (\<lambda>job. job_instituteType job = t)) allJobs1;
          allJobs3 = whenTruthy (pf_level filters)
                       (\<lambda>l. filter (\<lambda>job. job_level job = l)) allJobs2;
          allJobs4 = whenTruthy (pf_location filters)
                       (\<lambda>loc. filter (\<lambda>job.
                          str_includes (toLowerCase (city (job_location job))) (toLowerCase loc)
                          \<or> str_includes (toLowerCase (state (job_location job))) (toLowerCase loc)))
                       allJobs3;
          allJobs5 = whenTruthy (pf_employmentType filters)
                       (\<lambda>t. filter (\<lambda>job. job_employmentType job = t)) allJobs4;
          allJobs6 = whenTruthy (pf_query filters)
                       (\<lambda>q. filter (matchesQuery (toLowerCase q))) allJobs5;
          allJobs7 = whenTruthy (pf_postedWithin filters)
                       (\<lambda>pw xs. if pw = ''all'' then xs
                                else filter (\<lambda>job. now - daysAgoOf pw * 24 * 60 * 60 * 1000 \<le> job_createdAt job) xs)
                       allJobs6
      in allJobs7)"

text \<open>The array \<^verbatim>\<open>allJobs\<close> after the sort: the ordered result set that is paginated.\<close>

definition searchJobs_all :: "PartialJobSearchFilters \<Rightarrow> date \<Rightarrow> MemStorage \<Rightarrow> Job list" where
  "searchJobs_all filters now s = sortJobs (pf_sortBy filters) (searchJobs_filtered filters now s)"

text \<open>
  \<^verbatim>\<open>searchJobs(filters, page = 1, limit = 20)\<close>: an absent argument (\<open>None\<close>) takes the
  default.
\<close>

definition searchJobs ::
  "PartialJobSearchFilters \<Rightarrow> int option \<Rightarrow> int option \<Rightarrow> date \<Rightarrow> MemStorage \<Rightarrow> Job PaginatedResponse" where
  "searchJobs filters pageArg limitArg now s =
     (let pageNo = (case pageArg of None \<Rightarrow> 1 | Some p \<Rightarrow> p);
          pageSize = (case limitArg of None \<Rightarrow> 20 | Some l \<Rightarrow> l);
          allJobs = searchJobs_all filters now s;
          totalCount = int (length allJobs);
          startIndex = (pageNo - 1) * pageSize;
          endIndex = startIndex + pageSize
      in \<lparr>items = js_slice startIndex endIndex allJobs,
          total = totalCount,
          page = pageNo,
          limit = pageSize,
          hasMore = (endIndex < totalCount)\<rparr>)"

section \<open>The HTTP routes over the store (registerRoutes, in server/types/express.d.ts)\<close>

text \<open>
  \<^verbatim>\<open>req.user\<close> is the decoded identity token set by \<^verbatim>\<open>authenticateUser\<close>
  (\<open>None\<close>: no or an invalid token, answered 401).  A response is the status code
  with the \<^verbatim>\<open>error\<close> text of \<^verbatim>\<open>createApiResponse\<close>, or the data of a success.
\<close>

record UserPayload =
  req_uid :: string
  req_email :: "string option"
  req_email_verified :: bool
  req_role :: "string option"

datatype 'a http_response = Success 'a | Failure nat string

definition requireRole :: "string list \<Rightarrow> UserPayload \<Rightarrow> bool" where
  "requireRole roles user =
     (let userRole = (case req_role user of None \<Rightarrow> ''seeker''
                      | Some r \<Rightarrow> if r = [] then ''seeker'' else r)
      in List.member roles userRole)"

text \<open>
  \<^verbatim>\<open>GET /api/jobs\<close>.  \<open>q_page\<close> and \<open>q_limit\<close> are the values of \<^verbatim>\<open>parseInt\<close> on
  the query parameters, \<open>None\<close> for \<^verbatim>\<open>NaN\<close>; \<^verbatim>\<open>x || d\<close> on a number replaces
  \<^verbatim>\<open>NaN\<close> and 0 by \<open>d\<close>.
\<close>

record JobsQuery =
  q_page :: "int option"
  q_limit :: "int option"
  q_department :: "string option"
  q_instituteType :: "string option"
  q_level :: "string option"
  q_location :: "string option"
  q_employmentType :: "string option"
  q_sortBy :: "string option"
  q_q :: "string option"

definition num_or :: "int option \<Rightarrow> int \<Rightarrow> int" where
  "num_or v d = (case v of None \<Rightarrow> d | Some n \<Rightarrow> if n = 0 then d else n)"

definition str_or :: "string option \<Rightarrow> string \<Rightarrow> string" where
  "str_or v d = (case v of None \<Rightarrow> d | Some str \<Rightarrow> if str = [] then d else str)"

definition getApiJobs_limit :: "JobsQuery \<Rightarrow> int" where
  "getApiJobs_limit q = min (num_or (q_limit q) 20) 100"

definition getApiJobs_filters :: "JobsQuery \<Rightarrow> PartialJobSearchFilters" where
  "getApiJobs_filters q =
     \<lparr>pf_query = q_q q,
      pf_department = q_department q,
      pf_instituteType = q_instituteType q,
      pf_level = q_level q,
      pf_location = q_location q,
      pf_employmentType = q_employmentType q,
      pf_minSalary = None,
      pf_maxSalary = None,
      pf_postedWithin = None,
      pf_sortBy = Some (str_or (q_sortBy q) ''newest''),
      pf_page = None,
      pf_limit = None\<rparr>"

definition getApiJobs :: "JobsQuery \<Rightarrow> date \<Rightarrow> MemStorage \<Rightarrow> Job PaginatedResponse" where
  "getApiJobs q now s =
     searchJobs (getApiJobs_filters q) (Some (num_or (q_page q) 1)) (Some (getApiJobs_limit q)) now s"



text \<open>
  \<^verbatim>\<open>POST /api/applications\<close>, behind \<^verbatim>\<open>authenticateUser\<close>,
  \<^verbatim>\<open>requireEmailVerification\<close> and \<^verbatim>\<open>requireRole(['seeker'])\<close>.  The body is the
  value of \<^verbatim>\<open>applicationSchema.parse\<close>, \<open>None\<close> when the schema rejects it.
\<close>

record ApplicationBody =
  body_jobId :: string
  body_resumePath :: string
  body_coverLetter :: "string option"

definition postApiApplications ::
  "UserPayload option \<Rightarrow> ApplicationBody option \<Rightarrow> string \<Rightarrow> date \<Rightarrow> MemStorage
     \<Rightarrow> Application http_response \<times> MemStorage" where
  "postApiApplications reqUser body newId now s =
     (case reqUser of
        None \<Rightarrow> (Failure 401 ''No token provided'', s)
      | Some user \<Rightarrow>
          if \<not> req_email_verified user then (Failure 403 ''Email verification required'', s)
          else if \<not> requireRole [''seeker''] user then (Failure 403 ''Insufficient permissions'', s)
          else
            (case body of
               None \<Rightarrow> (Failure 400 ''Validation error'', s)
             | Some validatedData \<Rightarrow>
                 (case getJob (body_jobId validatedData) s of
                    None \<Rightarrow> (Failure 400 ''Job not available for applications'', s)
                  | Some job \<Rightarrow>
                      if job_status job \<noteq> ''approved''
                      then (Failure 400 ''Job not available for applications'', s)
                      else if job_lastDate job < now
                      then (Failure 400 ''Application deadline has passed'', s)
                      else
                        let dedupeKey = body_jobId validatedData @ ''_'' @ req_uid user in
                        (case getApplicationByDedupeKey dedupeKey s of
                           Some existingApplication \<Rightarrow>
                             (Failure 400 ''You have already applied to this job'', s)
                         | None \<Rightarrow>
                             let created = createApplication newId now
                                   \<lparr>app_jobId = body_jobId validatedData,
                                    app_applicantUid = req_uid user,
                                    app_resumePath = body_resumePath validatedData,
                                    app_coverLetter = body_coverLetter validatedData,
                                    app_dedupeKey = dedupeKey\<rparr> s;
                                 s2 = snd (updateJob (job_id job)
                                             [Set_job_applicationCount (job_applicationCount job + 1)]
                                             now (snd created))
                             in (Success (fst created), s2)))))"

section \<open>The Cloud Functions over Firestore (unnamed/part_000)\<close>

text \<open>
  The Firestore collections and the custom claims of Firebase Auth (\<open>auth_claims\<close>:
  the role claim of each Auth user).  A document reuses the record of the shared
  schema, its \<open>id\<close> field holding the document id.  \<^verbatim>\<open>doc(id).update\<close> fails on a
  missing document; \<^verbatim>\<open>collection.add\<close> stores under a new id.  Sending mail changes
  no state and never throws (\<^verbatim>\<open>sendEmail\<close> catches), so it is not part of the state.
\<close>

record Firestore =
  fs_users :: "(string \<times> User) list"
  fs_companies :: "(string \<times> Company) list"
  fs_jobs :: "(string \<times> Job) list"
  fs_applications :: "(string \<times> Application) list"
  fs_auditLogs :: "(string \<times> AuditLog) list"
  auth_claims :: "(string \<times> string option) list"

text \<open>\<^verbatim>\<open>context.auth\<close> of a callable function: the caller's uid and token claims.\<close>

record AuthData =
  auth_uid :: string
  token_email_verified :: bool
  token_role :: "string option"

text \<open>
  What a \<^verbatim>\<open>try\<close> block throws: an \<^verbatim>\<open>HttpsError\<close> with its code, or another
  exception (a \<^verbatim>\<open>TypeError\<close> on a property of \<^verbatim>\<open>undefined\<close>, a failed Firestore or
  Auth call).  Every \<^verbatim>\<open>catch (error)\<close> of the file rethrows
  \<^verbatim>\<open>new HttpsError('internal', ...)\<close> whatever it caught.
\<close>

datatype thrown = HttpsError error | OtherError

definition catch_internal :: "(thrown + 'a) \<times> 's \<Rightarrow> (error + 'a) \<times> 's" where
  "catch_internal r = (case fst r of Inl e \<Rightarrow> (Inl Internal, snd r) | Inr v \<Rightarrow> (Inr v, snd r))"

definition fs_createAuditLog ::
  "string \<Rightarrow> date \<Rightarrow> string \<Rightarrow> string \<Rightarrow> string \<Rightarrow> string \<Rightarrow> (string \<times> string) list
     \<Rightarrow> Firestore \<Rightarrow> Firestore" where
  "fs_createAuditLog newLogId now actorUid action targetType targetId metadata st =
     st\<lparr>fs_auditLogs := AList.update newLogId
          \<lparr>log_actorUid = actorUid, log_action = action, log_targetType = targetType,
           log_targetId = targetId, log_metadata = metadata,
           log_id = newLogId, log_timestamp = now\<rparr> (fs_auditLogs st)\<rparr>"

subsection \<open>approveEmployerUpgrade\<close>




subsection \<open>approveJob\<close>



subsection \<open>applyToJob\<close>

record ApplyToJobData =
  data_jobId :: "string option"
  data_resumePath :: "string option"
  data_coverLetter :: "string option"

text \<open>
  The body of the \<^verbatim>\<open>try\<close> block.  After the application is added and the counter
  incremented, \<^verbatim>\<open>applicantData.displayName\<close> and \<^verbatim>\<open>companyData.hrEmail\<close> are read:
  a missing user or company document makes that a \<^verbatim>\<open>TypeError\<close>, thrown after both
  writes.
\<close>

definition applyToJob_try ::
  "string \<Rightarrow> string \<Rightarrow> string \<Rightarrow> string option \<Rightarrow> string \<Rightarrow> string \<Rightarrow> date \<Rightarrow> Firestore
     \<Rightarrow> (thrown + string) \<times> Firestore" where
  "applyToJob_try uid jobId resumePath coverLetter newAppId newLogId now st =
     (case map_of (fs_jobs st) jobId of
        None \<Rightarrow> (Inl (HttpsError NotFound), st)
      | Some jobData \<Rightarrow>
          if job_status jobData \<noteq> ''approved'' then (Inl (HttpsError PermissionDenied), st)
          else if job_lastDate jobData < now then (Inl (HttpsError PermissionDenied), st)
          else
            let dedupeKey = jobId @ ''_'' @ uid in
            if filter (\<lambda>a. app_dedupeKey a = dedupeKey) (map snd (fs_applications st)) \<noteq> []
            then (Inl (HttpsError AlreadyExists), st)
            else
              let applicationData =
                    \<lparr>app_jobId = jobId, app_applicantUid = uid, app_resumePath = resumePath,
                     app_coverLetter = Some (str_or coverLetter []), app_dedupeKey = dedupeKey,
                     app_id = newAppId, app_status = ''submitted'', app_notes = None,
                     app_createdAt = now, app_updatedAt = now\<rparr>;
                  st1 = st\<lparr>fs_applications := AList.update newAppId applicationData (fs_applications st)\<rparr>;
                  st2 = st1\<lparr>fs_jobs := AList.update jobId
                          (jobData\<lparr>job_applicationCount := job_applicationCount jobData + 1\<rparr>)
                          (fs_jobs st1)\<rparr>
              in (case (map_of (fs_users st2) uid, map_of (fs_companies st2) (job_companyId jobData)) of
                    (Some applicantData, Some companyData) \<Rightarrow>
                      (Inr newAppId, fs_createAuditLog newLogId now uid ''application_submitted''
                                       ''application'' newAppId [(''jobId'', jobId)] st2)
                  | _ \<Rightarrow> (Inl OtherError, st2)))"

definition applyToJob ::
  "AuthData option \<Rightarrow> ApplyToJobData \<Rightarrow> string \<Rightarrow> string \<Rightarrow> date \<Rightarrow> Firestore
     \<Rightarrow> (error + string) \<times> Firestore" where
  "applyToJob auth d newAppId newLogId now st =
     (case auth of
        None \<Rightarrow> (Inl PermissionDenied, st)
      | Some a \<Rightarrow>
          if \<not> token_email_verified a then (Inl PermissionDenied, st)
          else if token_role a \<noteq> Some ''seeker'' then (Inl PermissionDenied, st)
          else
            (case (data_jobId d, data_resumePath d) of
               (Some jobId, Some resumePath) \<Rightarrow>
                 if jobId = [] \<or> resumePath = [] then (Inl InvalidArgument, st)
                 else catch_internal
                        (applyToJob_try (auth_uid a) jobId resumePath (data_coverLetter d)
                           newAppId newLogId now st)
             | _ \<Rightarrow> (Inl InvalidArgument, st)))"

subsection \<open>expireJobs\<close>



subsection \<open>updateApplicationStatus\<close>

record UpdateStatusData =
  data_applicationId :: "string option"
  data_status :: "string option"
  data_notes :: "string option"




section \<open>The client-side search over Firestore (unnamed/part_002)\<close>

text \<open>
  \<^verbatim>\<open>JobSearchFilters\<close> as the schema infers it: \<^verbatim>\<open>postedWithin\<close>, \<^verbatim>\<open>sortBy\<close>,
  \<^verbatim>\<open>page\<close> and \<^verbatim>\<open>limit\<close> have defaults and are always present.
\<close>

record JobSearchFilters =
  f_query :: "string option"
  f_department :: "string option"
  f_instituteType :: "string option"
  f_level :: "string option"
  f_location :: "string option"
  f_employmentType :: "string option"
  f_minSalary :: "int option"
  f_maxSalary :: "int option"
  f_postedWithin :: string
  f_sortBy :: string
  f_page :: int
  f_limit :: int

datatype QueryConstraint =
    Where_eq string string
  | Where_createdAt_ge date
  | OrderBy string string
  | Limit int

definition client_constraints :: "JobSearchFilters \<Rightarrow> date \<Rightarrow> QueryConstraint list" where
  "client_constraints filters now =
     [Where_eq ''status'' ''approved'']
     @ whenTruthy (f_department filters) (\<lambda>v cs. cs @ [Where_eq ''department'' v]) []
     @ whenTruthy (f_instituteType filters) (\<lambda>v cs. cs @ [Where_eq ''instituteType'' v]) []
     @ whenTruthy (f_level filters) (\<lambda>v cs. cs @ [Where_eq ''level'' v]) []
     @ whenTruthy (f_employmentType filters) (\<lambda>v cs. cs @ [Where_eq ''employmentType'' v]) []
     @ whenTruthy (f_location filters) (\<lambda>v cs. cs @ [Where_eq ''location.city'' v]) []
     @ (if f_postedWithin filters = ''all'' then []
        else [Where_createdAt_ge (now - daysAgoOf (f_postedWithin filters) * 24 * 60 * 60 * 1000)])
     @ (if f_sortBy filters = ''newest'' then [OrderBy ''createdAt'' ''desc'']
        else if f_sortBy filters = ''deadline'' then [OrderBy ''lastDate'' ''asc'']
        else if f_sortBy filters = ''salary_high'' then [OrderBy ''maxSalary'' ''desc'']
        else if f_sortBy filters = ''salary_low'' then [OrderBy ''minSalary'' ''asc'']
        else [])
     @ [Limit (f_limit filters)]"

text \<open>
  \<^verbatim>\<open>searchJobs(filters)\<close> of the client.  \<open>getDocs\<close> is the Firestore query: it maps
  the constraints to the documents of the snapshot.  \<^verbatim>\<open>startIndex\<close> is computed by
  the source and never used.
\<close>

definition client_searchJobs ::
  "(QueryConstraint list \<Rightarrow> Job list) \<Rightarrow> JobSearchFilters \<Rightarrow> date \<Rightarrow> Job PaginatedResponse" where
  "client_searchJobs getDocs filters now =
     (let docs = getDocs (client_constraints filters now);
          found = whenTruthy (f_query filters) (\<lambda>q. filter (matchesQuery (toLowerCase q))) docs
      in \<lparr>items = found,
          total = int (length found),
          page = f_page filters,
          limit = f_limit filters,
          hasMore = (int (length found) = f_limit filters)\<rparr>)"

text \<open>
  A reading of the Firestore query over a collection of job documents: equality and
  range filters, one ordering (a document without the ordering field is left out), and
  the limit.
\<close>

definition jobField :: "string \<Rightarrow> Job \<Rightarrow> string" where
  "jobField field j =
     (if field = ''status'' then job_status j
      else if field = ''department'' then job_department j
      else if field = ''instituteType'' then job_instituteType j
      else if field = ''level'' then job_level j
      else if field = ''employmentType'' then job_employmentType j
      else if field = ''location.city'' then city (job_location j)
      else [])"

definition jobOrderKey :: "string \<Rightarrow> Job \<Rightarrow> int option" where
  "jobOrderKey field j =
     (if field = ''createdAt'' then Some (job_createdAt j)
      else if field = ''lastDate'' then Some (job_lastDate j)
      else if field = ''maxSalary'' then job_maxSalary j
      else if field = ''minSalary'' then job_minSalary j
      else None)"

fun applyConstraint :: "QueryConstraint \<Rightarrow> Job list \<Rightarrow> Job list" where
  "applyConstraint (Where_eq field v) docs = filter (\<lambda>j. jobField field j = v) docs"
| "applyConstraint (Where_createdAt_ge t) docs = filter (\<lambda>j. t \<le> job_createdAt j) docs"
| "applyConstraint (OrderBy field dir) docs =
     sort_key (\<lambda>j. (if dir = ''desc'' then - 1 else 1) * orZero (jobOrderKey field j))
       (filter (\<lambda>j. jobOrderKey field j \<noteq> None) docs)"
| "applyConstraint (Limit n) docs = take (nat n) docs"

definition firestore_getDocs :: "(string \<times> Job) list \<Rightarrow> QueryConstraint list \<Rightarrow> Job list" where
  "firestore_getDocs coll constraints = fold applyConstraint constraints (map snd coll)"

section \<open>Example data\<close>

text \<open>Concrete records and states at which the theorems below are evaluated.\<close>

definition exLocation :: Location where
  "exLocation = \<lparr>city = ''Pune'', state = ''Maharashtra'', country = ''India''\<rparr>"

definition exInsertJob :: InsertJob where
  "exInsertJob =
     \<lparr>job_title = ''Assistant Professor of Mathematics'',
      job_department = ''Mathematics'',
      job_level = ''Assistant Professor'',
      job_instituteType = ''IIT'',
      job_employmentType = ''Full-time'',
      job_location = exLocation,
      job_minSalary = None,
      job_maxSalary = None,
      job_currency = ''INR'',
      job_qualifications = [''PhD''],
      job_skills = [''Algebra''],
      job_responsibilities = [''Teaching''],
      job_description = ''Teaching and research in mathematics'',
      job_requirements = None,
      job_lastDate = 2000,
      job_applyMode = ''internal'',
      job_applyUrl = None,
      job_companyId = ''c1'',
      job_posterUid = ''e1''\<rparr>"

definition exJob :: "string \<Rightarrow> string \<Rightarrow> date \<Rightarrow> int \<Rightarrow> Job" where
  "exJob jid st deadline cnt =
     InsertJob.extend (exInsertJob\<lparr>job_lastDate := deadline\<rparr>) (Job.fields jid st None None 0 cnt 0 0)"

definition exUser :: "string \<Rightarrow> string \<Rightarrow> User" where
  "exUser uid role =
     \<lparr>user_displayName = ''A User'', user_email = ''user@example.org'', user_role = role,
      user_emailVerified = True, user_id = uid, user_createdAt = 0, user_updatedAt = 0\<rparr>"

definition exInsertCompany :: InsertCompany where
  "exInsertCompany =
     \<lparr>company_name = ''An Institute'', company_website = None, company_instituteType = ''IIT'',
      company_hrEmail = ''hr@example.org'', company_logoPath = None,
      company_address = ''1 Campus Road, Pune'', company_phone = None, company_proofDocs = [],
      company_ownerUid = ''e1''\<rparr>"

definition exCompany :: "string \<Rightarrow> Company" where
  "exCompany st = InsertCompany.extend exInsertCompany (Company.fields ''c1'' st 0 0)"

definition exApplication :: "string \<Rightarrow> Application" where
  "exApplication st =
     \<lparr>app_jobId = ''j1'', app_applicantUid = ''s1'', app_resumePath = ''resumes/s1.pdf'',
      app_coverLetter = Some [], app_dedupeKey = ''j1_s1'', app_id = ''a1'', app_status = st,
      app_notes = None, app_createdAt = 0, app_updatedAt = 0\<rparr>"

text \<open>
  A Firestore state: seeker \<open>s1\<close>, employer \<open>e1\<close> owning company \<open>c1\<close>, its job \<open>j1\<close>
  with the given status and deadline, and the given applications.
\<close>

definition exFirestore :: "string \<Rightarrow> date \<Rightarrow> string \<Rightarrow> (string \<times> Application) list \<Rightarrow> Firestore" where
  "exFirestore jobStatus deadline companyStatus apps =
     \<lparr>fs_users = [(''s1'', exUser ''s1'' ''seeker''), (''e1'', exUser ''e1'' ''seeker'')],
      fs_companies = [(''c1'', exCompany companyStatus)],
      fs_jobs = [(''j1'', exJob ''j1'' jobStatus deadline (int (length apps)))],
      fs_applications = apps,
      fs_auditLogs = [],
      auth_claims = [(''s1'', None), (''e1'', None), (''adm'', Some ''admin'')]\<rparr>"

definition exSeeker :: AuthData where
  "exSeeker = \<lparr>auth_uid = ''s1'', token_email_verified = True, token_role = Some ''seeker''\<rparr>"

definition exAdmin :: AuthData where
  "exAdmin = \<lparr>auth_uid = ''adm'', token_email_verified = True, token_role = Some ''admin''\<rparr>"

definition exApplyData :: ApplyToJobData where
  "exApplyData =
     \<lparr>data_jobId = Some ''j1'', data_resumePath = Some ''resumes/s1.pdf'', data_coverLetter = None\<rparr>"

definition exStatusData :: "string \<Rightarrow> UpdateStatusData" where
  "exStatusData st = \<lparr>data_applicationId = Some ''a1'', data_status = Some st, data_notes = None\<rparr>"




definition exStore1 :: MemStorage where
  "exStore1 = snd (createJob ''j1'' 0 exInsertJob emptyStorage)"





text \<open>
  The filters \<^verbatim>\<open>{department: "Mathematics", sortBy: "deadline"}\<close>, and a store of
  \<open>n\<close> approved Mathematics jobs with the ids \<open>j\<close>, \<open>jj\<close>, \<open>jjj\<close>, ... and the
  deadlines 0, 1, 2, ...
\<close>

definition mathDeadlineFilters :: PartialJobSearchFilters where
  "mathDeadlineFilters =
     \<lparr>pf_query = None, pf_department = Some ''Mathematics'', pf_instituteType = None,
      pf_level = None, pf_location = None, pf_employmentType = None, pf_minSalary = None,
      pf_maxSalary = None, pf_postedWithin = None, pf_sortBy = Some ''deadline'',
      pf_page = None, pf_limit = None\<rparr>"

definition exJobN :: "nat \<Rightarrow> string \<times> Job" where
  "exJobN n =
     (replicate (Suc n) CHR ''j'', exJob (replicate (Suc n) CHR ''j'') ''approved'' (int n) 0)"

definition exStoreN :: "nat \<Rightarrow> MemStorage" where
  "exStoreN n = emptyStorage\<lparr>jobs := map exJobN [0..<n]\<rparr>"

text \<open>Client-side filters asking for the first page, of size \<open>n\<close>, newest first.\<close>

definition exClientFilters :: "int \<Rightarrow> JobSearchFilters" where
  "exClientFilters n =
     \<lparr>f_query = None, f_department = None, f_instituteType = None, f_level = None,
      f_location = None, f_employmentType = None, f_minSalary = None, f_maxSalary = None,
      f_postedWithin = ''all'', f_sortBy = ''newest'', f_page = 1, f_limit = n\<rparr>"


text \<open>A query of \<^verbatim>\<open>GET /api/jobs\<close> with the given value of \<^verbatim>\<open>parseInt(req.query.limit)\<close>.\<close>

definition exQuery :: "int option \<Rightarrow> JobsQuery" where
  "exQuery lim =
     \<lparr>q_page = None, q_limit = lim, q_department = None, q_instituteType = None, q_level = None,
      q_location = None, q_employmentType = None, q_sortBy = None, q_q = None\<rparr>"

section \<open>The records that match a set of filters\<close>

text \<open>
  The predicate that the filter steps of \<^verbatim>\<open>searchJobs\<close> apply to a job, one conjunct
  per step; a filter that is absent or empty holds of every job.
\<close>

definition condTruthy :: "string option \<Rightarrow> (string \<Rightarrow> bool) \<Rightarrow> bool" where
  "condTruthy v P = (case v of None \<Rightarrow> True | Some str \<Rightarrow> if str = [] then True else P str)"

definition matchesFilters :: "PartialJobSearchFilters \<Rightarrow> date \<Rightarrow> Job \<Rightarrow> bool" where
  "matchesFilters filters now job =
     (job_status job = ''approved''
      \<and> condTruthy (pf_department filters) (\<lambda>d. job_department job = d)
      \<and> condTruthy (pf_instituteType filters) (\<lambda>t. job_instituteType job = t)
      \<and> condTruthy (pf_level filters) (\<lambda>l. job_level job = l)
      \<and> condTruthy (pf_location filters)
           (\<lambda>loc. str_includes (toLowerCase (city (job_location job))) (toLowerCase loc)
                   \<or> str_includes (toLowerCase (state (job_location job))) (toLowerCase loc))
      \<and> condTruthy (pf_employmentType filters) (\<lambda>t. job_employmentType job = t)
      \<and> condTruthy (pf_query filters) (\<lambda>q. matchesQuery (toLowerCase q) job)
      \<and> condTruthy (pf_postedWithin filters)
           (\<lambda>pw. pw = ''all'' \<or> now - daysAgoOf pw * 24 * 60 * 60 * 1000 \<le> job_createdAt job))"

section \<open>Unfolding the example data\<close>

lemmas ex_defs = exLocation_def exInsertJob_def exJob_def exUser_def exInsertCompany_def exCompany_def
  exApplication_def InsertCompany.defs Company.defs
  exFirestore_def exSeeker_def exAdmin_def exApplyData_def exStatusData_def InsertJob.defs Job.defs

section \<open>Round trip of createJob and getJob\<close>

text \<open>
  C9.  For every job input, \<^verbatim>\<open>createJob(input)\<close> followed by \<^verbatim>\<open>getJob(id)\<close> on the
  returned id yields the created record: its user-supplied fields are the input's, its
  status is pending, and its view and application counters are 0.
\<close>

theorem createJob_getJob_roundtrip:
  "getJob (job_id (fst (createJob newId now input s))) (snd (createJob newId now input s))
     = Some (fst (createJob newId now input s))
   \<and> InsertJob.truncate (fst (createJob newId now input s)) = input
   \<and> job_status (fst (createJob newId now input s)) = ''pending''
   \<and> job_viewCount (fst (createJob newId now input s)) = 0
   \<and> job_applicationCount (fst (createJob newId now input s)) = 0"
  by (simp add: createJob_def getJob_def Let_def InsertJob.defs Job.defs update_conv')


section \<open>Mutations on a missing id\<close>

text \<open>
  C8 (as amended).  An update of the in-memory store on an id that is not present
  (\<^verbatim>\<open>updateUser\<close>, \<^verbatim>\<open>updateCompany\<close>, \<^verbatim>\<open>updateJob\<close>) returns normally, without
  NotFound or any other error, and leaves the store unchanged; \<^verbatim>\<open>deleteJob\<close> and
  \<^verbatim>\<open>deleteUser\<close> return normally as well, whatever the id.
\<close>

theorem update_missing_id_silent:
  "(map_of (users s) k = None \<longrightarrow> updateUser k userUpdates now s = (Inr (), s))
   \<and> (map_of (companies s) k = None \<longrightarrow> updateCompany k companyUpdates now s = (Inr (), s))
   \<and> (map_of (jobs s) k = None \<longrightarrow> updateJob k jobUpdates now s = (Inr (), s))
   \<and> fst (deleteJob k s) = Inr ()
   \<and> fst (deleteUser k s) = Inr ()"
  by (simp add: updateUser_def updateCompany_def updateJob_def deleteJob_def deleteUser_def Let_def)

theorem update_missing_id_silent_witness:
  "map_of (users exStore1) ''j2'' = None
   \<and> updateUser ''j2'' [Set_user_role ''admin''] 1000 exStore1 = (Inr (), exStore1)
   \<and> map_of (companies exStore1) ''j2'' = None
   \<and> updateCompany ''j2'' [Set_company_status ''approved''] 1000 exStore1 = (Inr (), exStore1)
   \<and> map_of (jobs exStore1) ''j2'' = None
   \<and> updateJob ''j2'' [Set_job_status ''approved''] 1000 exStore1 = (Inr (), exStore1)"
proof -
  have h: "map_of (users exStore1) ''j2'' = None" "map_of (companies exStore1) ''j2'' = None"
      "map_of (jobs exStore1) ''j2'' = None"
    by (simp_all add: exStore1_def createJob_def emptyStorage_def Let_def)
  from update_missing_id_silent
         [where s = exStore1 and k = "''j2''" and now = 1000
            and userUpdates = "[Set_user_role ''admin'']"
            and companyUpdates = "[Set_company_status ''approved'']"
            and jobUpdates = "[Set_job_status ''approved'']"]
       h
  show ?thesis by simp
qed

text \<open>
  The claim as stated fails: updating a job that the empty store does not hold
  succeeds silently instead of reporting NotFound.
\<close>

theorem update_missing_id_counterexample:
  "fst (updateJob ''j1'' [Set_job_status ''approved''] 1000 emptyStorage) = Inr ()
   \<and> fst (updateJob ''j1'' [Set_job_status ''approved''] 1000 emptyStorage) \<noteq> Inl NotFound"
  by (simp add: updateJob_def emptyStorage_def)

section \<open>applyToJob: duplicates and deadlines\<close>

lemma update_fresh: "k \<notin> fst ` set al \<Longrightarrow> AList.update k v al = al @ [(k, v)]"
  by (induction al) auto

lemma applyToJob_try_duplicate:
  assumes "(k, app) \<in> set (fs_applications st)"
    and "app_dedupeKey app = jobId @ ''_'' @ uid"
  shows "\<exists>e. applyToJob_try uid jobId resumePath coverLetter newAppId newLogId now st = (Inl e, st)"
proof -
  from assms have "app \<in> set (filter (\<lambda>a. app_dedupeKey a = jobId @ ''_'' @ uid) (map snd (fs_applications st)))"
    by force
  then have "filter (\<lambda>a. app_dedupeKey a = jobId @ ''_'' @ uid) (map snd (fs_applications st)) \<noteq> []"
    by (metis empty_iff list.set(1))
  then show ?thesis
    by (simp add: applyToJob_try_def Let_def split: option.splits)
qed

text \<open>
  Whoever calls and whatever the job's state is, an \<^verbatim>\<open>applyToJob\<close> call for which an
  application with the same \<^verbatim>\<open>dedupeKey\<close> exists fails and leaves the whole state
  unchanged: no application is created and no counter moves.
\<close>

lemma applyToJob_duplicate_no_write:
  assumes "auth = Some a"
    and "data_jobId d = Some jobId"
    and "(k, app) \<in> set (fs_applications st)"
    and "app_dedupeKey app = jobId @ ''_'' @ auth_uid a"
  shows "\<exists>e. applyToJob auth d newAppId newLogId now st = (Inl e, st)"
proof -
  have "\<exists>e. catch_internal (applyToJob_try (auth_uid a) jobId resumePath (data_coverLetter d)
                                newAppId newLogId now st) = (Inl e, st)" for resumePath
    using applyToJob_try_duplicate [OF assms(3) assms(4), of resumePath "data_coverLetter d" newAppId newLogId now]
    by (auto simp: catch_internal_def)
  with assms(1,2) show ?thesis
    by (auto simp: applyToJob_def split: option.splits)
qed

text \<open>
  \<^verbatim>\<open>applyToJob\<close> (with a fresh document id) keeps the \<^verbatim>\<open>dedupeKey\<close>s of the
  applications pairwise different.
\<close>

lemma applyToJob_dedupeKey_unique:
  assumes "distinct (map (app_dedupeKey \<circ> snd) (fs_applications st))"
    and "newAppId \<notin> fst ` set (fs_applications st)"
  shows "distinct (map (app_dedupeKey \<circ> snd) (fs_applications (snd (applyToJob auth d newAppId newLogId now st))))"
proof -
  have body: "distinct (map (app_dedupeKey \<circ> snd)
       (fs_applications (snd (applyToJob_try uid jobId resumePath coverLetter newAppId newLogId now st))))"
    for uid jobId resumePath coverLetter
    using assms
    by (auto simp: applyToJob_try_def Let_def fs_createAuditLog_def update_fresh filter_empty_conv
          split: option.splits)
  show ?thesis
    using assms(1) body
    by (auto simp: applyToJob_def catch_internal_def split: option.splits sum.splits)
qed

text \<open>
  The HTTP route for the same operation answers a duplicate with status 400 and the
  text of the \<^verbatim>\<open>already-exists\<close> error, and leaves the store unchanged.
\<close>

lemma postApiApplications_duplicate:
  assumes "req_email_verified user" and "requireRole [''seeker''] user"
    and "getJob (body_jobId body) s = Some job" and "job_status job = ''approved''"
    and "\<not> job_lastDate job < now"
    and "(k, app) \<in> set (applications s)"
    and "app_dedupeKey app = body_jobId body @ ''_'' @ req_uid user"
  shows "postApiApplications (Some user) (Some body) newId now s
     = (Failure 400 ''You have already applied to this job'', s)"
proof -
  from assms(6,7) have "\<exists>x \<in> set (map snd (applications s)). app_dedupeKey x = body_jobId body @ ''_'' @ req_uid user"
    by force
  then have "find (\<lambda>a. app_dedupeKey a = body_jobId body @ ''_'' @ req_uid user) (map snd (applications s)) \<noteq> None"
    by (simp add: find_None_iff)
  then obtain ex where "getApplicationByDedupeKey (body_jobId body @ ''_'' @ req_uid user) s = Some ex"
    by (auto simp: getApplicationByDedupeKey_def)
  with assms(1-5) show ?thesis
    by (simp add: postApiApplications_def Let_def)
qed

text \<open>
  C1 (the code at the failing input).  Seeker \<open>s1\<close>, verified, applies again to the
  approved and open job \<open>j1\<close>: the \<^verbatim>\<open>try\<close> block throws \<^verbatim>\<open>already-exists\<close> and writes
  nothing, but the \<^verbatim>\<open>catch\<close> rethrows, so the caller receives \<^verbatim>\<open>internal\<close>.
\<close>

theorem applyToJob_duplicate_reports_internal:
  "applyToJob_try ''s1'' ''j1'' ''resumes/s1.pdf'' None ''a2'' ''l1'' 1000
      (exFirestore ''approved'' 2000 ''approved'' [(''a1'', exApplication ''submitted'')])
     = (Inl (HttpsError AlreadyExists),
        exFirestore ''approved'' 2000 ''approved'' [(''a1'', exApplication ''submitted'')])
   \<and> applyToJob (Some exSeeker) exApplyData ''a2'' ''l1'' 1000
      (exFirestore ''approved'' 2000 ''approved'' [(''a1'', exApplication ''submitted'')])
     = (Inl Internal, exFirestore ''approved'' 2000 ''approved'' [(''a1'', exApplication ''submitted'')])"
  by (simp add: applyToJob_def applyToJob_try_def catch_internal_def ex_defs)

lemma applyToJob_try_past_deadline:
  "map_of (fs_jobs st) jobId = Some job \<Longrightarrow> job_lastDate job < now \<Longrightarrow>
   applyToJob_try uid jobId resumePath coverLetter newAppId newLogId now st
     = (Inl (HttpsError PermissionDenied), st)"
  by (simp add: applyToJob_try_def)

text \<open>
  C2 (as amended).  For every \<^verbatim>\<open>applyToJob\<close> call on a job whose \<^verbatim>\<open>lastDate\<close> is
  strictly before the current time, whatever the job's status, the call fails and
  leaves the whole state unchanged (no application is created, no counter moves); the
  error thrown in the handler is \<^verbatim>\<open>permission-denied\<close>, never
  \<^verbatim>\<open>failed-precondition\<close>.
\<close>

theorem applyToJob_past_deadline_fails:
  assumes "data_jobId d = Some jobId"
    and "map_of (fs_jobs st) jobId = Some job"
    and "job_lastDate job < now"
  shows "(\<exists>e. applyToJob auth d newAppId newLogId now st = (Inl e, st))
     \<and> applyToJob_try uid jobId resumePath coverLetter newAppId newLogId now st
         = (Inl (HttpsError PermissionDenied), st)"
  using assms
  by (auto simp: applyToJob_def catch_internal_def applyToJob_try_past_deadline split: option.splits)

theorem applyToJob_past_deadline_fails_witness:
  "data_jobId exApplyData = Some ''j1''
   \<and> map_of (fs_jobs (exFirestore ''pending'' 500 ''approved'' [])) ''j1'' = Some (exJob ''j1'' ''pending'' 500 0)
   \<and> job_lastDate (exJob ''j1'' ''pending'' 500 0) < 1000
   \<and> (\<exists>e. applyToJob (Some exSeeker) exApplyData ''a2'' ''l1'' 1000 (exFirestore ''pending'' 500 ''approved'' [])
            = (Inl e, exFirestore ''pending'' 500 ''approved'' []))
   \<and> applyToJob_try ''s1'' ''j1'' ''resumes/s1.pdf'' None ''a2'' ''l1'' 1000
        (exFirestore ''pending'' 500 ''approved'' [])
       = (Inl (HttpsError PermissionDenied), exFirestore ''pending'' 500 ''approved'' [])"
proof -
  have h1: "data_jobId exApplyData = Some ''j1''"
    by (simp add: exApplyData_def)
  have h2: "map_of (fs_jobs (exFirestore ''pending'' 500 ''approved'' [])) ''j1''
              = Some (exJob ''j1'' ''pending'' 500 0)"
    by (simp add: exFirestore_def)
  have h3: "job_lastDate (exJob ''j1'' ''pending'' 500 0) < 1000"
    by (simp add: ex_defs)
  from applyToJob_past_deadline_fails [OF h1 h2 h3] h1 h2 h3
  show ?thesis by blast
qed

text \<open>
  The claim as stated fails: on the approved job \<open>j1\<close> whose deadline 500 is before
  the time 1000 of the call, the verified seeker receives \<^verbatim>\<open>internal\<close>, not
  PreconditionFailed.
\<close>

theorem applyToJob_past_deadline_counterexample:
  "applyToJob (Some exSeeker) exApplyData ''a2'' ''l1'' 1000 (exFirestore ''approved'' 500 ''approved'' [])
     = (Inl Internal, exFirestore ''approved'' 500 ''approved'' [])
   \<and> fst (applyToJob (Some exSeeker) exApplyData ''a2'' ''l1'' 1000
           (exFirestore ''approved'' 500 ''approved'' []))
       \<noteq> Inl PreconditionFailed"
  by (simp add: applyToJob_def applyToJob_try_def catch_internal_def ex_defs)


section \<open>The status of a job\<close>
















section \<open>The status of a company\<close>












section \<open>updateApplicationStatus: the accepted statuses\<close>









section \<open>The application counter\<close>















section \<open>Search and pagination\<close>

lemma js_slice_nonneg:
  "0 \<le> a \<Longrightarrow> 0 \<le> b \<Longrightarrow> js_slice a (a + b) xs = take (nat b) (drop (nat a) xs)"
  by (auto simp: js_slice_def Let_def min_def take_all_iff)

lemma length_js_slice: "0 \<le> b \<Longrightarrow> length (js_slice a (a + b) xs) \<le> nat b"
  by (auto simp: js_slice_def Let_def min_def max_def)



lemma whenTruthy_filter:
  "whenTruthy v (\<lambda>d. filter (Q d)) xs = filter (\<lambda>j. condTruthy v (\<lambda>d. Q d j)) xs"
  by (simp add: whenTruthy_def condTruthy_def split: option.splits)

lemma whenTruthy_filter_unless:
  "whenTruthy v (\<lambda>d ys. if c d then ys else filter (Q d) ys) xs
     = filter (\<lambda>j. condTruthy v (\<lambda>d. c d \<or> Q d j)) xs"
  by (simp add: whenTruthy_def condTruthy_def split: option.splits)

lemma searchJobs_filtered_eq:
  "searchJobs_filtered filters now s = filter (matchesFilters filters now) (map snd (jobs s))"
  unfolding searchJobs_filtered_def Let_def whenTruthy_filter whenTruthy_filter_unless filter_filter
  by (rule filter_cong) (auto simp: matchesFilters_def)

lemma length_sortJobs: "length (sortJobs sb xs) = length xs"
  by (simp add: sortJobs_def)

lemma set_sortJobs: "set (sortJobs sb xs) = set xs"
  by (simp add: sortJobs_def)

lemma distinct_sortJobs: "distinct (sortJobs sb xs) = distinct xs"
  by (simp add: sortJobs_def)

lemma searchJobs_total:
  "total (searchJobs filters pageArg limitArg now s)
     = int (length (filter (matchesFilters filters now) (map snd (jobs s))))"
  by (simp add: searchJobs_def Let_def searchJobs_all_def length_sortJobs searchJobs_filtered_eq)

lemma searchJobs_items:
  "1 \<le> p \<Longrightarrow> 0 \<le> l \<Longrightarrow>
   items (searchJobs filters (Some p) (Some l) now s)
     = take (nat l) (drop (nat ((p - 1) * l)) (searchJobs_all filters now s))"
  using js_slice_nonneg [of "(p - 1) * l" l "searchJobs_all filters now s"]
  by (simp add: searchJobs_def Let_def)

lemma searchJobs_hasMore:
  "1 \<le> p \<Longrightarrow> 0 \<le> l \<Longrightarrow>
   hasMore (searchJobs filters (Some p) (Some l) now s)
     \<longleftrightarrow> drop (nat (p * l)) (searchJobs_all filters now s) \<noteq> []"
proof -
  assume "1 \<le> p" "0 \<le> l"
  then have "0 \<le> p * l" by simp
  then show ?thesis
    by (simp add: searchJobs_def Let_def algebra_simps) linarith
qed

lemma matches_math:
  "matchesFilters mathDeadlineFilters now
     = (\<lambda>j. job_status j = ''approved'' \<and> job_department j = ''Mathematics'')"
  by (rule ext) (simp add: matchesFilters_def mathDeadlineFilters_def condTruthy_def)











lemma exJobN_matches: "matchesFilters mathDeadlineFilters now (snd (exJobN i))"
  by (simp add: matches_math exJobN_def exJob_def exInsertJob_def InsertJob.defs Job.defs)

lemma searchJobs_filtered_exStoreN:
  "searchJobs_filtered mathDeadlineFilters now (exStoreN n) = map (snd \<circ> exJobN) [0..<n]"
  by (simp add: searchJobs_filtered_eq exStoreN_def emptyStorage_def exJobN_matches)

lemma length_searchJobs_all_exStoreN:
  "length (searchJobs_all mathDeadlineFilters now (exStoreN n)) = n"
  by (simp add: searchJobs_all_def length_sortJobs searchJobs_filtered_exStoreN)





lemma getApiJobs_limit_eq: "limit (getApiJobs q now s) = min (num_or (q_limit q) 20) 100"
  by (simp add: getApiJobs_def getApiJobs_limit_def searchJobs_def Let_def)

lemma getApiJobs_items:
  "0 \<le> limit (getApiJobs q now s) \<Longrightarrow>
   int (length (items (getApiJobs q now s))) \<le> limit (getApiJobs q now s)"
proof -
  assume nonneg: "0 \<le> limit (getApiJobs q now s)"
  then have l: "0 \<le> getApiJobs_limit q"
    by (simp add: getApiJobs_def searchJobs_def Let_def)
  have "length (js_slice ((num_or (q_page q) 1 - 1) * getApiJobs_limit q)
                 ((num_or (q_page q) 1 - 1) * getApiJobs_limit q + getApiJobs_limit q)
                 (searchJobs_all (getApiJobs_filters q) now s)) \<le> nat (getApiJobs_limit q)"
    by (rule length_js_slice [OF l])
  with l show ?thesis
    by (simp add: getApiJobs_def searchJobs_def Let_def)
qed

lemma getApiJobs_cap:
  "q_limit q = Some n \<Longrightarrow> 100 < n \<Longrightarrow>
   limit (getApiJobs q now s) = 100 \<and> length (items (getApiJobs q now s)) \<le> 100"
proof -
  assume "q_limit q = Some n" "100 < n"
  then have lim: "limit (getApiJobs q now s) = 100"
    by (simp add: getApiJobs_limit_eq num_or_def)
  with getApiJobs_items [of q now s] show ?thesis by simp
qed

lemma getApiJobs_default: "q_limit q = None \<Longrightarrow> limit (getApiJobs q now s) = 20"
  by (simp add: getApiJobs_limit_eq num_or_def)

lemma searchJobs_defaults:
  "searchJobs filters None None now s = searchJobs filters (Some 1) (Some 20) now s"
  by (simp add: searchJobs_def)

lemma client_total:
  "total (client_searchJobs getDocs cf now) = int (length (items (client_searchJobs getDocs cf now)))
   \<and> (hasMore (client_searchJobs getDocs cf now)
        \<longleftrightarrow> int (length (items (client_searchJobs getDocs cf now))) = f_limit cf)"
  by (simp add: client_searchJobs_def Let_def)

text \<open>
  C7 (as amended).  Through the server (\<^verbatim>\<open>GET /api/jobs\<close> over
  \<^verbatim>\<open>MemStorage.searchJobs\<close>) the page size is the requested limit, 20 by default,
  capped at 100 by the route, so a requested limit above 100 returns at most 100
  items; \<^verbatim>\<open>searchJobs\<close> itself defaults to page 1 and limit 20.  The response's
  \<^verbatim>\<open>total\<close> is the number of records that match the filters, and for a page number
  of at least 1 and a limit that is not negative the items are that page of the
  ordered result set and \<^verbatim>\<open>hasMore\<close> holds exactly when records exist beyond it.  The client-side search over Firestore
  reports as \<^verbatim>\<open>total\<close> the number of items it returns, and its \<^verbatim>\<open>hasMore\<close> holds
  exactly when that number equals the limit.
\<close>

theorem search_pagination:
  "limit (getApiJobs q now s) = min (num_or (q_limit q) 20) 100
   \<and> (q_limit q = None \<longrightarrow> limit (getApiJobs q now s) = 20)
   \<and> (q_limit q = Some n \<and> 100 < n \<longrightarrow>
        limit (getApiJobs q now s) = 100 \<and> length (items (getApiJobs q now s)) \<le> 100)
   \<and> searchJobs filters None None now s = searchJobs filters (Some 1) (Some 20) now s
   \<and> total (searchJobs filters pageArg limitArg now s)
       = int (length (filter (matchesFilters filters now) (map snd (jobs s))))
   \<and> length (searchJobs_all filters now s) = length (filter (matchesFilters filters now) (map snd (jobs s)))
   \<and> (1 \<le> p \<and> 0 \<le> l \<longrightarrow>
        items (searchJobs filters (Some p) (Some l) now s)
          = take (nat l) (drop (nat ((p - 1) * l)) (searchJobs_all filters now s))
        \<and> (hasMore (searchJobs filters (Some p) (Some l) now s)
             \<longleftrightarrow> drop (nat (p * l)) (searchJobs_all filters now s) \<noteq> []))
   \<and> total (client_searchJobs getDocs cf now) = int (length (items (client_searchJobs getDocs cf now)))
   \<and> (hasMore (client_searchJobs getDocs cf now)
        \<longleftrightarrow> int (length (items (client_searchJobs getDocs cf now))) = f_limit cf)"
  using getApiJobs_limit_eq [of q now s] getApiJobs_default [of q now s] getApiJobs_cap [of q n now s]
    searchJobs_defaults [of filters now s] searchJobs_total [of filters pageArg limitArg now s]
    searchJobs_items [of p l filters now s] searchJobs_hasMore [of p l filters now s]
    client_total [of getDocs cf now]
  by (simp add: searchJobs_all_def length_sortJobs searchJobs_filtered_eq)

theorem search_pagination_witness:
  "q_limit (exQuery (Some 500)) = Some 500
   \<and> limit (getApiJobs (exQuery (Some 500)) 0 (exStoreN 41)) = 100
   \<and> length (items (getApiJobs (exQuery (Some 500)) 0 (exStoreN 41))) \<le> 100
   \<and> q_limit (exQuery None) = None
   \<and> limit (getApiJobs (exQuery None) 0 (exStoreN 41)) = 20
   \<and> total (searchJobs mathDeadlineFilters (Some 1) (Some 20) 0 (exStoreN 41)) = 41
   \<and> hasMore (searchJobs mathDeadlineFilters (Some 1) (Some 20) 0 (exStoreN 41))
   \<and> hasMore (searchJobs mathDeadlineFilters (Some 2) (Some 20) 0 (exStoreN 41))
   \<and> \<not> hasMore (searchJobs mathDeadlineFilters (Some 3) (Some 20) 0 (exStoreN 41))"
proof -
  have h1: "q_limit (exQuery (Some 500)) = Some 500" "q_limit (exQuery None) = None"
    by (simp_all add: exQuery_def)
  have h2: "length (searchJobs_all mathDeadlineFilters 0 (exStoreN 41)) = 41"
    by (rule length_searchJobs_all_exStoreN)
  from search_pagination [where q = "exQuery (Some 500)" and n = 500 and now = 0 and s = "exStoreN 41"
         and filters = mathDeadlineFilters and p = 1 and l = 20 and pageArg = "Some 1" and limitArg = "Some 20"]
       search_pagination [where q = "exQuery None" and now = 0 and s = "exStoreN 41"
         and filters = mathDeadlineFilters and p = 2 and l = 20]
       search_pagination [where now = 0 and s = "exStoreN 41"
         and filters = mathDeadlineFilters and p = 3 and l = 20]
       h1 h2
  show ?thesis by simp
qed

text \<open>
  The claim as stated fails for the client-side search.  With one approved job in the
  collection and limit 1, the page holds the only matching record and \<^verbatim>\<open>hasMore\<close>
  is true; with two approved jobs and limit 1, \<^verbatim>\<open>total\<close> is 1 while two records
  match.
\<close>

theorem client_search_counterexample:
  "items (client_searchJobs (firestore_getDocs [exJobN 0]) (exClientFilters 1) 1000) = [snd (exJobN 0)]
   \<and> firestore_getDocs [exJobN 0] [Where_eq ''status'' ''approved''] = [snd (exJobN 0)]
   \<and> hasMore (client_searchJobs (firestore_getDocs [exJobN 0]) (exClientFilters 1) 1000)
   \<and> length (firestore_getDocs [exJobN 0, exJobN 1] [Where_eq ''status'' ''approved'']) = 2
   \<and> total (client_searchJobs (firestore_getDocs [exJobN 0, exJobN 1]) (exClientFilters 1) 1000) = 1"
  by (simp add: client_searchJobs_def client_constraints_def firestore_getDocs_def exClientFilters_def
        whenTruthy_def jobField_def jobOrderKey_def orZero_def Let_def
        exJobN_def exJob_def exInsertJob_def exLocation_def InsertJob.defs Job.defs)

end
